theory Spec2Isabelle
  imports Main "HOL-Library.Word" "HOL-Library.Sublist"
begin

section \<open>Columns of the schema object model: rendering and comparison\<close>

text \<open>
  A shallow embedding of \<^verbatim>\<open>internal/tengo/column.go\<close>: the \<^verbatim>\<open>Column\<close> struct, its
  methods \<^verbatim>\<open>Definition\<close>, \<^verbatim>\<open>Equals\<close> and \<^verbatim>\<open>Equivalent\<close>, and the helpers
  \<^verbatim>\<open>charsetsEquivalent\<close> and \<^verbatim>\<open>collationsEquivalent\<close>. Go strings are byte
  sequences and are modelled as \<^typ>\<open>string\<close>; a \<^verbatim>\<open>*Column\<close> is an optional address
  into a store of columns, \<^term>\<open>None\<close> being the nil pointer.
\<close>

subsection \<open>Library functions of Go used by the code\<close>

text \<open>\<^verbatim>\<open>strings.Join(elems, sep)\<close>.\<close>

fun Join :: "string list \<Rightarrow> string \<Rightarrow> string" where
  "Join [] sep = []"
| "Join [x] sep = x"
| "Join (x # y # ys) sep = x @ sep @ Join (y # ys) sep"

text \<open>
  \<^verbatim>\<open>strings.Cut(s, sep)\<close>: the text before and after the first occurrence of
  \<^verbatim>\<open>sep\<close> and whether it occurs; when it does not, the result is \<^verbatim>\<open>(s, "", false)\<close>.
\<close>

fun Cut :: "string \<Rightarrow> string \<Rightarrow> string \<times> string \<times> bool" where
  "Cut [] sep = ([], [], sep = [])"
| "Cut (c # cs) sep =
     (if prefix sep (c # cs) then ([], drop (length sep) (c # cs), True)
      else (case Cut cs sep of
              (before, after, found) \<Rightarrow>
                if found then (c # before, after, True) else (c # cs, [], False)))"

text \<open>The verb \<^verbatim>\<open>%d\<close> of \<^verbatim>\<open>fmt.Sprintf\<close> on an unsigned integer: its decimal digits.\<close>

definition digit :: "nat \<Rightarrow> char" where
  "digit d = ''0123456789'' ! d"

function decimal :: "nat \<Rightarrow> string" where
  "decimal n = (if n < 10 then [digit n] else decimal (n div 10) @ [digit (n mod 10)])"
  by pat_completeness auto
termination
  by (relation "measure (\<lambda>n. n)") auto

declare decimal.simps [simp del]

subsection \<open>Flavors\<close>

text \<open>
  Modelled from the spec: the type \<^verbatim>\<open>Flavor\<close> and its predicates are declared in a file
  that is not among the sources. Section 3 of the specification gives a flavor a vendor
  tag from an enumeration and a version triple; section 4.1 gives \<^verbatim>\<open>isVendor(tag)\<close> and
  \<^verbatim>\<open>atLeast(tag, major, minor?, patch?)\<close>, which is false when the vendor tag differs
  and otherwise compares the version triple lexicographically, omitted parts being 0.
\<close>

datatype Vendor = VendorMySQL | VendorMariaDB | VendorPercona

record Flavor =
  Vendor :: Vendor
  Version :: "nat \<times> nat \<times> nat"

definition isVendor :: "Flavor \<Rightarrow> Vendor \<Rightarrow> bool" where
  "isVendor fl tag = (Vendor fl = tag)"

fun versionParts :: "nat list \<Rightarrow> nat \<times> nat \<times> nat" where
  "versionParts [] = (0, 0, 0)"
| "versionParts [major] = (major, 0, 0)"
| "versionParts [major, minor] = (major, minor, 0)"
| "versionParts (major # minor # patch # _) = (major, minor, patch)"

fun versionAtLeast :: "nat \<times> nat \<times> nat \<Rightarrow> nat \<times> nat \<times> nat \<Rightarrow> bool" where
  "versionAtLeast (a, b, c) (x, y, z) =
     (if a = x then (if b = y then z \<le> c else y < b) else x < a)"

definition flavorAtLeast :: "Flavor \<Rightarrow> Vendor \<Rightarrow> nat list \<Rightarrow> bool" where
  "flavorAtLeast fl tag parts =
     (if Vendor fl = tag then versionAtLeast (Version fl) (versionParts parts) else False)"

definition IsMySQL :: "Flavor \<Rightarrow> bool" where
  "IsMySQL fl = isVendor fl VendorMySQL"

definition IsMariaDB :: "Flavor \<Rightarrow> bool" where
  "IsMariaDB fl = isVendor fl VendorMariaDB"

definition IsPercona :: "Flavor \<Rightarrow> bool" where
  "IsPercona fl = isVendor fl VendorPercona"

definition MinMySQL :: "Flavor \<Rightarrow> nat list \<Rightarrow> bool" where
  "MinMySQL fl parts = flavorAtLeast fl VendorMySQL parts"

definition MinMariaDB :: "Flavor \<Rightarrow> nat list \<Rightarrow> bool" where
  "MinMariaDB fl parts = flavorAtLeast fl VendorMariaDB parts"

subsection \<open>Column types\<close>

text \<open>
  Modelled from the spec: the type \<^verbatim>\<open>ColumnType\<close> with its methods \<^verbatim>\<open>String\<close> and
  \<^verbatim>\<open>Equivalent\<close> is declared in a file that is not among the sources; the code of
  \<^verbatim>\<open>column.go\<close> reads its field \<^verbatim>\<open>Base\<close>. Section 3 of the specification gives a
  type a base name and the modifiers display width, signedness, length and
  precision/scale; section 4.2 makes two types equivalent when they are identical, or
  differ only in the presence or absence of an integer display width.
\<close>

record ColumnType =
  Base :: string
  DisplayWidth :: "nat option"
  Unsigned :: bool
  Length :: "nat option"
  PrecisionScale :: "(nat \<times> nat) option"

definition ColumnType_String :: "ColumnType \<Rightarrow> string" where
  "ColumnType_String ct =
     Base ct
     @ (case DisplayWidth ct of None \<Rightarrow> [] | Some w \<Rightarrow> ''('' @ decimal w @ '')'')
     @ (case Length ct of None \<Rightarrow> [] | Some n \<Rightarrow> ''('' @ decimal n @ '')'')
     @ (case PrecisionScale ct of
          None \<Rightarrow> []
        | Some (p, s) \<Rightarrow> ''('' @ decimal p @ '','' @ decimal s @ '')'')
     @ (if Unsigned ct then '' unsigned'' else [])"

definition ColumnType_Equivalent :: "ColumnType \<Rightarrow> ColumnType \<Rightarrow> bool" where
  "ColumnType_Equivalent ct other =
     (if ct = other then True
      else ct\<lparr>DisplayWidth := None\<rparr> = other\<lparr>DisplayWidth := None\<rparr>
           \<and> (DisplayWidth ct = None \<or> DisplayWidth other = None))"

subsection \<open>Escaping\<close>

text \<open>
  Modelled from the spec: \<^verbatim>\<open>EscapeIdentifier\<close> is declared in a file that is not among
  the sources. Section 6 of the specification: an identifier is wrapped in the quoting
  character, the backtick, with any embedded quoting character doubled.
\<close>

definition EscapeIdentifier :: "string \<Rightarrow> string" where
  "EscapeIdentifier input =
     ''`'' @ concat (map (\<lambda>ch. if ch = CHR ''`'' then ''``'' else [ch]) input) @ ''`''"

text \<open>
  Two more functions that \<^verbatim>\<open>Definition\<close> calls are declared outside the sources and
  the specification does not fix their text: \<^verbatim>\<open>EscapeValueForCreateTable\<close>, which
  escapes a comment for a single-quoted literal, and the method
  \<^verbatim>\<open>compressedColumnOpenComment\<close> of a flavor, the opening of the versioned comment
  around a compression codec. They are parameters of the model.
\<close>

record Externals =
  EscapeValueForCreateTable :: "string \<Rightarrow> string"
  compressedColumnOpenComment :: "Flavor \<Rightarrow> string"

subsection \<open>The column\<close>

record Column =
  Name :: string
  Type :: ColumnType
  Nullable :: bool
  AutoIncrement :: bool
  Default :: string
  OnUpdate :: string
  GenerationExpr :: string
  Virtual :: bool
  CharSet :: string
  Collation :: string
  ShowCharSet :: bool
  ShowCollation :: bool
  Compression :: string
  Comment :: string
  Invisible :: bool
  CheckClause :: string
  SpatialReferenceID :: "32 word"
  HasSpatialReference :: bool

text \<open>
  A \<^verbatim>\<open>*Column\<close> is nil or the address of a column in the store. The methods only
  read the store.
\<close>

type_synonym addr = nat
type_synonym ColumnPtr = "addr option"
type_synonym store = "addr \<Rightarrow> Column"

datatype error = NilPointerDereference

subsection \<open>Definition\<close>

text \<open>
  The slice \<^verbatim>\<open>clauses\<close> as \<^verbatim>\<open>Definition\<close> holds it at its \<^verbatim>\<open>return\<close>
  statement, for the column \<open>c\<close> the receiver points to. Every \<^verbatim>\<open>append\<close> of the
  source is one rebinding of \<open>clauses\<close>, in the order of the source.
\<close>

definition DefinitionClauses :: "Externals \<Rightarrow> Column \<Rightarrow> Flavor \<Rightarrow> string list" where
  "DefinitionClauses ext c flavor =
    (let clauses = replicate 2 [];
         clauses = clauses[0 := EscapeIdentifier (Name c)];
         clauses =
           (if Compression c \<noteq> [] \<and> IsMariaDB flavor
            then clauses[1 := ColumnType_String (Type c) @ '' ''
                   @ compressedColumnOpenComment ext flavor @ Compression c @ ''*/'']
            else clauses[1 := ColumnType_String (Type c)]);
         clauses =
           (if CharSet c \<noteq> [] \<and> ShowCharSet c
            then clauses @ [''CHARACTER SET '' @ CharSet c] else clauses);
         clauses =
           (if Collation c \<noteq> [] \<and> ShowCollation c
            then clauses @ [''COLLATE '' @ Collation c] else clauses);
         clauses =
           (if GenerationExpr c \<noteq> []
            then (let genKind = (if Virtual c then ''VIRTUAL'' else ''STORED'')
                  in clauses @ [''GENERATED ALWAYS AS ('' @ GenerationExpr c @ '') '' @ genKind])
            else clauses);
         clauses =
           (if \<not> Nullable c then clauses @ [''NOT NULL'']
            else if Base (Type c) = ''timestamp'' then clauses @ [''NULL'']
            else clauses);
         clauses =
           (if HasSpatialReference c \<and> MinMySQL flavor [8]
            then clauses @ [''/*!80003 SRID '' @ decimal (unat (SpatialReferenceID c)) @ '' */'']
            else clauses);
         clauses =
           (if Invisible c \<and> IsMariaDB flavor \<and> \<not> MinMariaDB flavor [11, 7]
            then clauses @ [''INVISIBLE''] else clauses);
         clauses =
           (if Compression c \<noteq> [] \<and> IsPercona flavor
            then clauses @ [compressedColumnOpenComment ext flavor
                   @ ''COLUMN_FORMAT '' @ Compression c @ '' */'']
            else clauses);
         clauses =
           (if Default c \<noteq> [] then clauses @ [''DEFAULT '' @ Default c] else clauses);
         clauses =
           (if OnUpdate c \<noteq> [] then clauses @ [''ON UPDATE '' @ OnUpdate c] else clauses);
         clauses =
           (if AutoIncrement c then clauses @ [''AUTO_INCREMENT''] else clauses);
         clauses =
           (if Invisible c
            then (if IsMySQL flavor then clauses @ [''/*!80023 INVISIBLE */'']
                  else if MinMariaDB flavor [11, 7] then clauses @ [''INVISIBLE'']
                  else clauses)
            else clauses);
         clauses =
           (if Comment c \<noteq> []
            then clauses @ [''COMMENT '' @ [CHR 39]
                   @ EscapeValueForCreateTable ext (Comment c) @ [CHR 39]]
            else clauses);
         clauses =
           (if CheckClause c \<noteq> [] then clauses @ [''CHECK ('' @ CheckClause c @ '')'']
            else clauses)
     in clauses)"

text \<open>
  \<^verbatim>\<open>Definition\<close> reads \<^verbatim>\<open>c.Name\<close> first, which panics on a nil receiver; otherwise
  it returns the clauses joined by single spaces.
\<close>

definition Definition :: "Externals \<Rightarrow> store \<Rightarrow> ColumnPtr \<Rightarrow> Flavor \<Rightarrow> error + string" where
  "Definition ext h c flavor =
     (case c of
        None \<Rightarrow> Inl NilPointerDereference
      | Some a \<Rightarrow> Inr (Join (DefinitionClauses ext (h a) flavor) '' ''))"

subsection \<open>Equals and Equivalent\<close>

definition charsetsEquivalent :: "string \<Rightarrow> string \<Rightarrow> bool" where
  "charsetsEquivalent a b =
     ((a = b) \<or> (a = ''utf8mb3'' \<and> b = ''utf8'') \<or> (a = ''utf8'' \<and> b = ''utf8mb3''))"

definition collationsEquivalent :: "string \<Rightarrow> string \<Rightarrow> bool" where
  "collationsEquivalent a b =
     (if a = b then True
      else (case Cut a ''_'' of
              (aCharset, aRest, _) \<Rightarrow>
                (case Cut b ''_'' of
                   (bCharset, bRest, _) \<Rightarrow>
                     if aRest \<noteq> bRest then False
                     else (aCharset = ''utf8'' \<and> bCharset = ''utf8mb3'')
                          \<or> (aCharset = ''utf8mb3'' \<and> bCharset = ''utf8''))))"

text \<open>
  \<^verbatim>\<open>c == other\<close> compares the two pointers; \<^verbatim>\<open>*c == *other\<close> compares the two
  structs field by field.
\<close>

definition Equals :: "store \<Rightarrow> ColumnPtr \<Rightarrow> ColumnPtr \<Rightarrow> bool" where
  "Equals h c other =
     (if c = other then True
      else if c = None \<or> other = None then False
      else h (the c) = h (the other))"

definition Equivalent :: "store \<Rightarrow> ColumnPtr \<Rightarrow> ColumnPtr \<Rightarrow> bool" where
  "Equivalent h c other =
     (if Equals h c other then True
      else if c = None \<or> other = None then False
      else if \<not> ColumnType_Equivalent (Type (h (the c))) (Type (h (the other))) then False
      else (let selfCopy = h (the c);
                selfCopy = selfCopy\<lparr>Type := Type (h (the other))\<rparr>;
                selfCopy = selfCopy\<lparr>ShowCharSet := ShowCharSet (h (the other))\<rparr>;
                selfCopy = selfCopy\<lparr>ShowCollation := ShowCollation (h (the other))\<rparr>;
                selfCopy =
                  (if charsetsEquivalent (CharSet (h (the c))) (CharSet (h (the other)))
                   then selfCopy\<lparr>CharSet := CharSet (h (the other))\<rparr> else selfCopy);
                selfCopy =
                  (if collationsEquivalent (Collation (h (the c))) (Collation (h (the other)))
                   then selfCopy\<lparr>Collation := Collation (h (the other))\<rparr> else selfCopy)
            in selfCopy = h (the other)))"

subsection \<open>The clause table of the specification\<close>

text \<open>
  Section 4.3 of the specification lists the clauses of a column definition in fifteen
  numbered items, each present or absent. The table below follows that list, item by
  item and in its words: \<open>spec_order\<close> is the order of the items and
  \<open>spec_clause\<close> the text of one item, \<^term>\<open>None\<close> when the item is absent.
\<close>

datatype Clause =
    ClauseName | ClauseType | ClauseCharacterSet | ClauseCollate | ClauseGenerated
  | ClauseNullability | ClauseSRID | ClauseInvisibleEarly | ClauseCompression
  | ClauseDefault | ClauseOnUpdate | ClauseAutoIncrement | ClauseInvisibleLate
  | ClauseComment | ClauseCheck

definition spec_order :: "Clause list" where
  "spec_order =
     [ClauseName, ClauseType, ClauseCharacterSet, ClauseCollate, ClauseGenerated,
      ClauseNullability, ClauseSRID, ClauseInvisibleEarly, ClauseCompression,
      ClauseDefault, ClauseOnUpdate, ClauseAutoIncrement, ClauseInvisibleLate,
      ClauseComment, ClauseCheck]"

fun spec_clause :: "Externals \<Rightarrow> Column \<Rightarrow> Flavor \<Rightarrow> Clause \<Rightarrow> string option" where
  "spec_clause ext c fl ClauseName = Some (EscapeIdentifier (Name c))"
| "spec_clause ext c fl ClauseType =
     Some (ColumnType_String (Type c)
           @ (if Compression c \<noteq> [] \<and> isVendor fl VendorMariaDB
              then '' '' @ compressedColumnOpenComment ext fl @ Compression c @ ''*/''
              else []))"
| "spec_clause ext c fl ClauseCharacterSet =
     (if CharSet c \<noteq> [] \<and> ShowCharSet c then Some (''CHARACTER SET '' @ CharSet c) else None)"
| "spec_clause ext c fl ClauseCollate =
     (if Collation c \<noteq> [] \<and> ShowCollation c then Some (''COLLATE '' @ Collation c) else None)"
| "spec_clause ext c fl ClauseGenerated =
     (if GenerationExpr c \<noteq> []
      then Some (''GENERATED ALWAYS AS ('' @ GenerationExpr c @ '') ''
                 @ (if Virtual c then ''VIRTUAL'' else ''STORED''))
      else None)"
| "spec_clause ext c fl ClauseNullability =
     (if \<not> Nullable c then Some ''NOT NULL''
      else if Base (Type c) = ''timestamp'' then Some ''NULL'' else None)"
| "spec_clause ext c fl ClauseSRID =
     (if HasSpatialReference c \<and> flavorAtLeast fl VendorMySQL [8]
      then Some (''/*!80003 SRID '' @ decimal (unat (SpatialReferenceID c)) @ '' */'')
      else None)"
| "spec_clause ext c fl ClauseInvisibleEarly =
     (if Invisible c \<and> isVendor fl VendorMariaDB \<and> \<not> flavorAtLeast fl VendorMariaDB [11, 7]
      then Some ''INVISIBLE'' else None)"
| "spec_clause ext c fl ClauseCompression =
     (if Compression c \<noteq> [] \<and> isVendor fl VendorPercona
      then Some (compressedColumnOpenComment ext fl @ ''COLUMN_FORMAT '' @ Compression c @ '' */'')
      else None)"
| "spec_clause ext c fl ClauseDefault =
     (if Default c \<noteq> [] then Some (''DEFAULT '' @ Default c) else None)"
| "spec_clause ext c fl ClauseOnUpdate =
     (if OnUpdate c \<noteq> [] then Some (''ON UPDATE '' @ OnUpdate c) else None)"
| "spec_clause ext c fl ClauseAutoIncrement =
     (if AutoIncrement c then Some ''AUTO_INCREMENT'' else None)"
| "spec_clause ext c fl ClauseInvisibleLate =
     (if Invisible c \<and> isVendor fl VendorMySQL then Some ''/*!80023 INVISIBLE */''
      else if Invisible c \<and> flavorAtLeast fl VendorMariaDB [11, 7] then Some ''INVISIBLE''
      else None)"
| "spec_clause ext c fl ClauseComment =
     (if Comment c \<noteq> []
      then Some (''COMMENT '' @ [CHR 39] @ EscapeValueForCreateTable ext (Comment c) @ [CHR 39])
      else None)"
| "spec_clause ext c fl ClauseCheck =
     (if CheckClause c \<noteq> [] then Some (''CHECK ('' @ CheckClause c @ '')'') else None)"

text \<open>
  The end-to-end example of section 8: a non-nullable, auto-incrementing column named
  \<^verbatim>\<open>id\<close> of the bare type \<^verbatim>\<open>int\<close>, every other attribute unset.
\<close>

definition bareInt :: ColumnType where
  "bareInt = \<lparr>Base = ''int'', DisplayWidth = None, Unsigned = False, Length = None,
     PrecisionScale = None\<rparr>"

definition idColumn :: Column where
  "idColumn =
     \<lparr>Name = ''id'', Type = bareInt, Nullable = False, AutoIncrement = True, Default = [],
      OnUpdate = [], GenerationExpr = [], Virtual = False, CharSet = [], Collation = [],
      ShowCharSet = False, ShowCollation = False, Compression = [], Comment = [],
      Invisible = False, CheckClause = [], SpatialReferenceID = 0,
      HasSpatialReference = False\<rparr>"

subsection \<open>Recognising single clauses\<close>

text \<open>
  The SRID clause is the versioned comment \<^verbatim>\<open>/*!80003 SRID n */\<close> for some number
  \<open>n\<close>; an invisibility clause is the bare token or MySQL's versioned comment.
\<close>

definition isSRIDClause :: "string \<Rightarrow> bool" where
  "isSRIDClause s = (\<exists>n. s = ''/*!80003 SRID '' @ decimal n @ '' */'')"

definition isInvisibilityClause :: "string \<Rightarrow> bool" where
  "isInvisibilityClause s = (s = ''INVISIBLE'' \<or> s = ''/*!80023 INVISIBLE */'')"

text \<open>
  One choice of the two external functions, for evaluating examples: no escaping, and
  the opening \<^verbatim>\<open>/*!50633 \<close> of the compression comment on every flavor.
\<close>

definition exampleExternals :: Externals where
  "exampleExternals =
     \<lparr>EscapeValueForCreateTable = (\<lambda>s. s),
      compressedColumnOpenComment = (\<lambda>fl. ''/*!50633 '')\<rparr>"

subsection \<open>The normalized copy of the specification\<close>

text \<open>
  Section 4.4 of the specification describes \<^verbatim>\<open>equivalent(a, b)\<close> through a normalized
  copy of \<open>a\<close>: the type and the two visibility flags are those of \<open>b\<close>, the character
  set is that of \<open>b\<close> if and only if the two character sets are charset-equivalent, and
  the collation is that of \<open>b\<close> if and only if the two collations are
  collation-equivalent.
\<close>

definition normalizedCopy :: "Column \<Rightarrow> Column \<Rightarrow> Column" where
  "normalizedCopy a b =
     a\<lparr>Type := Type b,
       ShowCharSet := ShowCharSet b,
       ShowCollation := ShowCollation b,
       CharSet := (if charsetsEquivalent (CharSet a) (CharSet b) then CharSet b else CharSet a),
       Collation :=
         (if collationsEquivalent (Collation a) (Collation b) then Collation b
          else Collation a)\<rparr>"

text \<open>
  A store for examples with two columns: \<open>b\<close> at address 1 and \<open>a\<close> at every other
  address.
\<close>

definition twoColumns :: "Column \<Rightarrow> Column \<Rightarrow> store" where
  "twoColumns a b = (\<lambda>_. a)(1 := b)"

section \<open>Properties of Definition\<close>

subsection \<open>The clauses as one concatenation\<close>

lemma if_append_left: "(if P then xs @ ys else xs) = xs @ (if P then ys else [])"
  by simp

lemma if_append_both: "(if P then xs @ ys else xs @ zs) = xs @ (if P then ys else zs)"
  by simp

lemma if_append_right: "(if P then xs else xs @ ys) = xs @ (if P then [] else ys)"
  by simp

lemma DefinitionClauses_unfold:
  "DefinitionClauses ext c flavor =
     [EscapeIdentifier (Name c),
      if Compression c \<noteq> [] \<and> IsMariaDB flavor
      then ColumnType_String (Type c) @ '' ''
             @ compressedColumnOpenComment ext flavor @ Compression c @ ''*/''
      else ColumnType_String (Type c)]
     @ (if CharSet c \<noteq> [] \<and> ShowCharSet c then [''CHARACTER SET '' @ CharSet c] else [])
     @ (if Collation c \<noteq> [] \<and> ShowCollation c then [''COLLATE '' @ Collation c] else [])
     @ (if GenerationExpr c \<noteq> []
        then [''GENERATED ALWAYS AS ('' @ GenerationExpr c @ '') ''
                @ (if Virtual c then ''VIRTUAL'' else ''STORED'')]
        else [])
     @ (if \<not> Nullable c then [''NOT NULL'']
        else if Base (Type c) = ''timestamp'' then [''NULL''] else [])
     @ (if HasSpatialReference c \<and> MinMySQL flavor [8]
        then [''/*!80003 SRID '' @ decimal (unat (SpatialReferenceID c)) @ '' */''] else [])
     @ (if Invisible c \<and> IsMariaDB flavor \<and> \<not> MinMariaDB flavor [11, 7]
        then [''INVISIBLE''] else [])
     @ (if Compression c \<noteq> [] \<and> IsPercona flavor
        then [compressedColumnOpenComment ext flavor
                @ ''COLUMN_FORMAT '' @ Compression c @ '' */'']
        else [])
     @ (if Default c \<noteq> [] then [''DEFAULT '' @ Default c] else [])
     @ (if OnUpdate c \<noteq> [] then [''ON UPDATE '' @ OnUpdate c] else [])
     @ (if AutoIncrement c then [''AUTO_INCREMENT''] else [])
     @ (if Invisible c
        then (if IsMySQL flavor then [''/*!80023 INVISIBLE */'']
              else if MinMariaDB flavor [11, 7] then [''INVISIBLE''] else [])
        else [])
     @ (if Comment c \<noteq> []
        then [''COMMENT '' @ [CHR 39] @ EscapeValueForCreateTable ext (Comment c) @ [CHR 39]]
        else [])
     @ (if CheckClause c \<noteq> [] then [''CHECK ('' @ CheckClause c @ '')''] else [])"
  unfolding DefinitionClauses_def
  apply (simp only: if_append_left if_append_both if_append_right Let_def)
  apply (simp add: numeral_2_eq_2)
  done

lemma map_filter_Cons_append:
  "List.map_filter f (x # xs) = (case f x of None \<Rightarrow> [] | Some y \<Rightarrow> [y]) @ List.map_filter f xs"
  by (simp add: List.map_filter_simps split: option.split)

lemma spec_clause_slots:
  "(case spec_clause ext c fl ClauseName of None \<Rightarrow> [] | Some y \<Rightarrow> [y])
     = [EscapeIdentifier (Name c)]"
  "(case spec_clause ext c fl ClauseType of None \<Rightarrow> [] | Some y \<Rightarrow> [y])
     = [if Compression c \<noteq> [] \<and> IsMariaDB fl
        then ColumnType_String (Type c) @ '' ''
               @ compressedColumnOpenComment ext fl @ Compression c @ ''*/''
        else ColumnType_String (Type c)]"
  "(case spec_clause ext c fl ClauseCharacterSet of None \<Rightarrow> [] | Some y \<Rightarrow> [y])
     = (if CharSet c \<noteq> [] \<and> ShowCharSet c then [''CHARACTER SET '' @ CharSet c] else [])"
  "(case spec_clause ext c fl ClauseCollate of None \<Rightarrow> [] | Some y \<Rightarrow> [y])
     = (if Collation c \<noteq> [] \<and> ShowCollation c then [''COLLATE '' @ Collation c] else [])"
  "(case spec_clause ext c fl ClauseGenerated of None \<Rightarrow> [] | Some y \<Rightarrow> [y])
     = (if GenerationExpr c \<noteq> []
        then [''GENERATED ALWAYS AS ('' @ GenerationExpr c @ '') ''
                @ (if Virtual c then ''VIRTUAL'' else ''STORED'')]
        else [])"
  "(case spec_clause ext c fl ClauseNullability of None \<Rightarrow> [] | Some y \<Rightarrow> [y])
     = (if \<not> Nullable c then [''NOT NULL'']
        else if Base (Type c) = ''timestamp'' then [''NULL''] else [])"
  "(case spec_clause ext c fl ClauseSRID of None \<Rightarrow> [] | Some y \<Rightarrow> [y])
     = (if HasSpatialReference c \<and> MinMySQL fl [8]
        then [''/*!80003 SRID '' @ decimal (unat (SpatialReferenceID c)) @ '' */''] else [])"
  "(case spec_clause ext c fl ClauseInvisibleEarly of None \<Rightarrow> [] | Some y \<Rightarrow> [y])
     = (if Invisible c \<and> IsMariaDB fl \<and> \<not> MinMariaDB fl [11, 7]
        then [''INVISIBLE''] else [])"
  "(case spec_clause ext c fl ClauseCompression of None \<Rightarrow> [] | Some y \<Rightarrow> [y])
     = (if Compression c \<noteq> [] \<and> IsPercona fl
        then [compressedColumnOpenComment ext fl
                @ ''COLUMN_FORMAT '' @ Compression c @ '' */'']
        else [])"
  "(case spec_clause ext c fl ClauseDefault of None \<Rightarrow> [] | Some y \<Rightarrow> [y])
     = (if Default c \<noteq> [] then [''DEFAULT '' @ Default c] else [])"
  "(case spec_clause ext c fl ClauseOnUpdate of None \<Rightarrow> [] | Some y \<Rightarrow> [y])
     = (if OnUpdate c \<noteq> [] then [''ON UPDATE '' @ OnUpdate c] else [])"
  "(case spec_clause ext c fl ClauseAutoIncrement of None \<Rightarrow> [] | Some y \<Rightarrow> [y])
     = (if AutoIncrement c then [''AUTO_INCREMENT''] else [])"
  "(case spec_clause ext c fl ClauseInvisibleLate of None \<Rightarrow> [] | Some y \<Rightarrow> [y])
     = (if Invisible c
        then (if IsMySQL fl then [''/*!80023 INVISIBLE */'']
              else if MinMariaDB fl [11, 7] then [''INVISIBLE''] else [])
        else [])"
  "(case spec_clause ext c fl ClauseComment of None \<Rightarrow> [] | Some y \<Rightarrow> [y])
     = (if Comment c \<noteq> []
        then [''COMMENT '' @ [CHR 39] @ EscapeValueForCreateTable ext (Comment c) @ [CHR 39]]
        else [])"
  "(case spec_clause ext c fl ClauseCheck of None \<Rightarrow> [] | Some y \<Rightarrow> [y])
     = (if CheckClause c \<noteq> [] then [''CHECK ('' @ CheckClause c @ '')''] else [])"
  by (simp_all add: IsMySQL_def IsMariaDB_def IsPercona_def MinMySQL_def MinMariaDB_def)

lemma spec_clauses_eq:
  "List.map_filter (spec_clause ext c fl) spec_order = DefinitionClauses ext c fl"
  unfolding spec_order_def DefinitionClauses_unfold
  by (simp only: map_filter_Cons_append spec_clause_slots List.map_filter_simps
      append_Cons append_Nil append_Nil2)

text \<open>
  Claim C1. \<^verbatim>\<open>Definition\<close> returns the clauses of the table of section 4.3, in the
  order of the table, every absent clause left out, joined by one space between
  consecutive clauses and by nothing else (no line break is inserted; the text of a
  field is emitted as it is). In particular the example column \<open>idColumn\<close> renders as
  \<^verbatim>\<open>`id` int NOT NULL AUTO_INCREMENT\<close> on every flavor, whatever the two external
  functions are.
\<close>

theorem Definition_clause_order:
  "Definition ext h (Some a) fl
     = Inr (Join (List.map_filter (spec_clause ext (h a) fl) spec_order) '' '')
   \<and> Definition ext (h(a := idColumn)) (Some a) fl = Inr ''`id` int NOT NULL AUTO_INCREMENT''"
proof
  show "Definition ext h (Some a) fl
     = Inr (Join (List.map_filter (spec_clause ext (h a) fl) spec_order) '' '')"
    by (simp add: Definition_def spec_clauses_eq)
  show "Definition ext (h(a := idColumn)) (Some a) fl = Inr ''`id` int NOT NULL AUTO_INCREMENT''"
    by (simp add: Definition_def DefinitionClauses_unfold idColumn_def bareInt_def
        EscapeIdentifier_def ColumnType_String_def)
qed

subsection \<open>Single clauses\<close>

text \<open>
  The first two elements of the clause list are the escaped name and the type text;
  the optional clauses follow them. A token of the output is an element of that list.
\<close>

lemma filter_if_single: "filter P (if A then [x] else []) = (if A \<and> P x then [x] else [])"
  by (cases A) simp_all

lemma filter_if_nested:
  "filter P (if A then (if B then [x] else if C then [y] else []) else [])
     = (if A \<and> B \<and> P x then [x] else if A \<and> \<not> B \<and> C \<and> P y then [y] else [])"
  by (cases A; cases B; cases C; simp)

lemma filter_if_two:
  "filter P (if A then [x] else if B then [y] else [])
     = (if A \<and> P x then [x] else if \<not> A \<and> B \<and> P y then [y] else [])"
  by (cases A; cases B; simp)

text \<open>
  Claim C3. The output of \<^verbatim>\<open>Definition\<close> is the clause list joined by spaces, and
  among the optional clauses of that list the nullability tokens \<^verbatim>\<open>NOT NULL\<close> and
  \<^verbatim>\<open>NULL\<close> are: exactly one \<^verbatim>\<open>NOT NULL\<close> when the column is not nullable; exactly
  one \<^verbatim>\<open>NULL\<close> when it is nullable and the base of its type is \<^verbatim>\<open>timestamp\<close>; none
  at all when it is nullable with any other base type.
\<close>

theorem Definition_nullability:
  "Definition ext h (Some a) fl = Inr (Join (DefinitionClauses ext (h a) fl) '' '')
   \<and> filter (\<lambda>s. s = ''NOT NULL'' \<or> s = ''NULL'') (drop 2 (DefinitionClauses ext (h a) fl))
       = (if \<not> Nullable (h a) then [''NOT NULL'']
          else if Base (Type (h a)) = ''timestamp'' then [''NULL'']
          else [])"
proof
  show "Definition ext h (Some a) fl = Inr (Join (DefinitionClauses ext (h a) fl) '' '')"
    by (simp add: Definition_def)
  show "filter (\<lambda>s. s = ''NOT NULL'' \<or> s = ''NULL'') (drop 2 (DefinitionClauses ext (h a) fl))
       = (if \<not> Nullable (h a) then [''NOT NULL'']
          else if Base (Type (h a)) = ''timestamp'' then [''NULL'']
          else [])"
    unfolding DefinitionClauses_unfold
    apply (simp only: drop_Suc_Cons numeral_2_eq_2 drop_0 append_Cons append_Nil filter_append
        filter_if_single filter_if_nested filter_if_two)
    apply simp
    done
qed

subsection \<open>The SRID clause\<close>

lemma digit_in_digits: "d < 10 \<Longrightarrow> digit d \<in> set ''0123456789''"
  unfolding digit_def by (rule nth_mem) simp

lemma set_decimal: "set (decimal n) \<subseteq> set ''0123456789''"
proof (induction n rule: decimal.induct)
  case (1 n)
  show ?case
  proof (cases "n < 10")
    case True
    then show ?thesis using digit_in_digits [of n] by (subst decimal.simps) simp
  next
    case False
    have "digit (n mod 10) \<in> set ''0123456789''" by (rule digit_in_digits) simp
    with False 1 show ?thesis by (subst decimal.simps) simp
  qed
qed

lemma decimal_no_C: "CHR ''C'' \<notin> set (decimal n)"
  using set_decimal [of n] by auto

lemma compression_clause_not_SRID:
  "opn @ ''COLUMN_FORMAT '' @ codec @ '' */'' \<noteq> ''/*!80003 SRID '' @ decimal n @ '' */''"
proof
  assume "opn @ ''COLUMN_FORMAT '' @ codec @ '' */'' = ''/*!80003 SRID '' @ decimal n @ '' */''"
  then have "set (opn @ ''COLUMN_FORMAT '' @ codec @ '' */'')
      = set (''/*!80003 SRID '' @ decimal n @ '' */'')"
    by (rule arg_cong)
  moreover have "CHR ''C'' \<in> set (opn @ ''COLUMN_FORMAT '' @ codec @ '' */'')"
    by simp
  moreover have "CHR ''C'' \<notin> set (''/*!80003 SRID '' @ decimal n @ '' */'')"
    using decimal_no_C [of n] by simp
  ultimately show False by blast
qed

lemma isSRIDClause_simps:
  "isSRIDClause (''/*!80003 SRID '' @ decimal n @ '' */'')"
  "\<not> isSRIDClause (''CHARACTER SET '' @ a)"
  "\<not> isSRIDClause (''COLLATE '' @ a)"
  "\<not> isSRIDClause (''GENERATED ALWAYS AS ('' @ a)"
  "\<not> isSRIDClause ''NOT NULL''"
  "\<not> isSRIDClause ''NULL''"
  "\<not> isSRIDClause ''INVISIBLE''"
  "\<not> isSRIDClause (opn @ ''COLUMN_FORMAT '' @ codec @ '' */'')"
  "\<not> isSRIDClause (''DEFAULT '' @ a)"
  "\<not> isSRIDClause (''ON UPDATE '' @ a)"
  "\<not> isSRIDClause ''AUTO_INCREMENT''"
  "\<not> isSRIDClause ''/*!80023 INVISIBLE */''"
  "\<not> isSRIDClause (''COMMENT '' @ a)"
  "\<not> isSRIDClause (''CHECK ('' @ a)"
  unfolding isSRIDClause_def
  using compression_clause_not_SRID [of opn codec]
  by auto

lemma drop_two_append: "drop 2 ([x, y] @ zs) = zs"
  by simp

lemma MinMySQL_8: "MinMySQL fl [8] = (Vendor fl = VendorMySQL \<and> 8 \<le> fst (Version fl))"
  by (cases "Version fl") (auto simp: MinMySQL_def flavorAtLeast_def)

lemma decimal_0: "decimal 0 = ''0''"
  by (simp add: decimal.simps digit_def)

text \<open>
  Claim C4. The output of \<^verbatim>\<open>Definition\<close> is the clause list joined by spaces, and
  among the optional clauses of that list there is an SRID clause exactly when the
  presence flag \<^verbatim>\<open>HasSpatialReference\<close> is set and the flavor is MySQL of major
  version 8 or more, and then it is the one clause carrying the column's SRID. With the
  flag unset there is none, whatever the raw SRID value and the flavor; with the flag
  set and the value 0, on MySQL 8 or later, the clause is \<^verbatim>\<open>/*!80003 SRID 0 */\<close>.
\<close>

theorem Definition_SRID:
  "Definition ext h (Some a) fl = Inr (Join (DefinitionClauses ext (h a) fl) '' '')
   \<and> filter isSRIDClause (drop 2 (DefinitionClauses ext (h a) fl))
       = (if HasSpatialReference (h a) \<and> MinMySQL fl [8]
          then [''/*!80003 SRID '' @ decimal (unat (SpatialReferenceID (h a))) @ '' */'']
          else [])
   \<and> MinMySQL fl [8] = (Vendor fl = VendorMySQL \<and> 8 \<le> fst (Version fl))
   \<and> filter isSRIDClause
         (drop 2 (DefinitionClauses ext (c\<lparr>HasSpatialReference := False\<rparr>) fl)) = []
   \<and> filter isSRIDClause
         (drop 2 (DefinitionClauses ext (c\<lparr>HasSpatialReference := True, SpatialReferenceID := 0\<rparr>)
            \<lparr>Vendor = VendorMySQL, Version = (8 + k, minor, patch)\<rparr>))
       = [''/*!80003 SRID 0 */'']"
proof -
  have main: "filter isSRIDClause (drop 2 (DefinitionClauses ext c' fl'))
     = (if HasSpatialReference c' \<and> MinMySQL fl' [8]
        then [''/*!80003 SRID '' @ decimal (unat (SpatialReferenceID c')) @ '' */'']
        else [])" for c' fl'
    unfolding DefinitionClauses_unfold
    apply (simp only: drop_two_append filter_append
        filter_if_single filter_if_nested filter_if_two isSRIDClause_simps)
    apply simp
    done
  have m8: "MinMySQL \<lparr>Vendor = VendorMySQL, Version = (8 + k, minor, patch)\<rparr> [8]"
    by (simp add: MinMySQL_8)
  have "Definition ext h (Some a) fl = Inr (Join (DefinitionClauses ext (h a) fl) '' '')"
    by (simp add: Definition_def)
  then show ?thesis
    by (simp add: main MinMySQL_8 [of fl] m8 decimal_0)
qed

subsection \<open>Invisibility and compression are placed once\<close>

lemma has_C_neq: "CHR ''C'' \<in> set s \<Longrightarrow> CHR ''C'' \<notin> set t \<Longrightarrow> s \<noteq> t"
  by auto

lemma isInvisibilityClause_simps:
  "isInvisibilityClause ''INVISIBLE''"
  "isInvisibilityClause ''/*!80023 INVISIBLE */''"
  "\<not> isInvisibilityClause (''CHARACTER SET '' @ a)"
  "\<not> isInvisibilityClause (''COLLATE '' @ a)"
  "\<not> isInvisibilityClause (''GENERATED ALWAYS AS ('' @ a)"
  "\<not> isInvisibilityClause ''NOT NULL''"
  "\<not> isInvisibilityClause ''NULL''"
  "\<not> isInvisibilityClause (''/*!80003 SRID '' @ a)"
  "\<not> isInvisibilityClause (opn @ ''COLUMN_FORMAT '' @ codec @ '' */'')"
  "\<not> isInvisibilityClause (''DEFAULT '' @ a)"
  "\<not> isInvisibilityClause (''ON UPDATE '' @ a)"
  "\<not> isInvisibilityClause ''AUTO_INCREMENT''"
  "\<not> isInvisibilityClause (''COMMENT '' @ a)"
  "\<not> isInvisibilityClause (''CHECK ('' @ a)"
  unfolding isInvisibilityClause_def
  using has_C_neq [of "opn @ ''COLUMN_FORMAT '' @ codec @ '' */''" "''INVISIBLE''"]
    has_C_neq [of "opn @ ''COLUMN_FORMAT '' @ codec @ '' */''" "''/*!80023 INVISIBLE */''"]
  by auto

lemma invisibility_clauses:
  "filter isInvisibilityClause (drop 2 (DefinitionClauses ext c fl))
     = (if Invisible c \<and> IsMariaDB fl \<and> \<not> MinMariaDB fl [11, 7] then [''INVISIBLE''] else [])
       @ (if Invisible c \<and> IsMySQL fl then [''/*!80023 INVISIBLE */'']
          else if Invisible c \<and> \<not> IsMySQL fl \<and> MinMariaDB fl [11, 7] then [''INVISIBLE'']
          else [])"
  unfolding DefinitionClauses_unfold
  apply (simp only: drop_two_append filter_append
      filter_if_single filter_if_nested filter_if_two isInvisibilityClause_simps)
  apply simp
  done

lemma vendor_exclusive:
  "\<not> (IsMariaDB fl \<and> IsMySQL fl)" "\<not> (IsMariaDB fl \<and> IsPercona fl)"
  by (auto simp: IsMariaDB_def IsMySQL_def IsPercona_def isVendor_def)

lemma set_if_single: "y \<in> set (if A then [x] else []) \<longleftrightarrow> A \<and> y = x"
  by (cases A) auto

lemma separate_compression_only_Percona:
  assumes pre: "prefix ''/*'' (compressedColumnOpenComment ext fl)"
    and mem: "compressedColumnOpenComment ext fl @ ''COLUMN_FORMAT '' @ Compression c @ '' */''
               \<in> set (drop 2 (DefinitionClauses ext c fl))"
  shows "Compression c \<noteq> [] \<and> IsPercona fl"
proof -
  from pre obtain r where r: "compressedColumnOpenComment ext fl = ''/*'' @ r"
    by (auto simp: prefix_def)
  define sep where "sep = compressedColumnOpenComment ext fl @ ''COLUMN_FORMAT '' @ Compression c @ '' */''"
  have hasC: "CHR ''C'' \<in> set sep" by (simp add: sep_def)
  have first: "hd sep = CHR ''/''" "sep \<noteq> []" by (simp_all add: sep_def r)
  have n1: "sep \<noteq> ''CHARACTER SET '' @ a" for a using first by (cases sep) auto
  have n2: "sep \<noteq> ''COLLATE '' @ a" for a using first by (cases sep) auto
  have n3: "sep \<noteq> ''GENERATED ALWAYS AS ('' @ a" for a using first by (cases sep) auto
  have n4: "sep \<noteq> ''NOT NULL''" "sep \<noteq> ''NULL''" "sep \<noteq> ''INVISIBLE''"
    "sep \<noteq> ''AUTO_INCREMENT''" using first by (cases sep; auto)+
  have n5: "sep \<noteq> ''/*!80003 SRID '' @ decimal n @ '' */''" for n
    unfolding sep_def by (rule compression_clause_not_SRID)
  have n6: "sep \<noteq> ''DEFAULT '' @ a" for a using first by (cases sep) auto
  have n7: "sep \<noteq> ''ON UPDATE '' @ a" for a using first by (cases sep) auto
  have n8: "sep \<noteq> ''/*!80023 INVISIBLE */''" using hasC by (rule has_C_neq) simp
  have n9: "sep \<noteq> ''COMMENT '' @ a" for a using first by (cases sep) auto
  have n10: "sep \<noteq> ''CHECK ('' @ a" for a using first by (cases sep) auto
  from mem have "sep \<in> set (drop 2 (DefinitionClauses ext c fl))" by (simp only: sep_def)
  then show ?thesis
    unfolding DefinitionClauses_unfold
    apply (simp only: drop_two_append set_append Un_iff set_if_single)
    using n1 n2 n3 n4 n5 n6 n7 n8 n9 n10
    apply (auto split: if_splits)
    done
qed


lemma inline_compression_only_MariaDB:
  assumes "DefinitionClauses ext c fl ! 1
             = ColumnType_String (Type c) @ '' ''
                 @ compressedColumnOpenComment ext fl @ Compression c @ ''*/''"
  shows "Compression c \<noteq> [] \<and> IsMariaDB fl"
  using assms unfolding DefinitionClauses_unfold
  by (auto split: if_splits)


text \<open>
  Claim C5. The output of \<^verbatim>\<open>Definition\<close> is the clause list joined by spaces, and
  among the optional clauses of that list there is at most one invisibility clause, so
  the early and the late placement never occur together. The type text does not carry
  the inline compression comment while the separate \<^verbatim>\<open>COLUMN_FORMAT\<close> comment is
  among the optional clauses; for recognising that clause the opening of the
  compression comment is taken to start a comment, with \<^verbatim>\<open>/*\<close>.
\<close>

theorem Definition_single_placement:
  "Definition ext h (Some a) fl = Inr (Join (DefinitionClauses ext (h a) fl) '' '')
   \<and> length (filter isInvisibilityClause (drop 2 (DefinitionClauses ext (h a) fl))) \<le> 1
   \<and> (prefix ''/*'' (compressedColumnOpenComment ext fl) \<longrightarrow>
        \<not> (DefinitionClauses ext (h a) fl ! 1
              = ColumnType_String (Type (h a)) @ '' ''
                  @ compressedColumnOpenComment ext fl @ Compression (h a) @ ''*/''
            \<and> compressedColumnOpenComment ext fl @ ''COLUMN_FORMAT '' @ Compression (h a) @ '' */''
                \<in> set (drop 2 (DefinitionClauses ext (h a) fl))))"
proof (intro conjI impI)
  show "Definition ext h (Some a) fl = Inr (Join (DefinitionClauses ext (h a) fl) '' '')"
    by (simp add: Definition_def)
next
  show "length (filter isInvisibilityClause (drop 2 (DefinitionClauses ext (h a) fl))) \<le> 1"
    using vendor_exclusive(1) [of fl] by (simp add: invisibility_clauses)
next
  assume pre: "prefix ''/*'' (compressedColumnOpenComment ext fl)"
  show "\<not> (DefinitionClauses ext (h a) fl ! 1
              = ColumnType_String (Type (h a)) @ '' ''
                  @ compressedColumnOpenComment ext fl @ Compression (h a) @ ''*/''
            \<and> compressedColumnOpenComment ext fl @ ''COLUMN_FORMAT '' @ Compression (h a) @ '' */''
                \<in> set (drop 2 (DefinitionClauses ext (h a) fl)))"
    using inline_compression_only_MariaDB [of ext "h a" fl]
      separate_compression_only_Percona [OF pre, of "h a"] vendor_exclusive(2) [of fl]
    by blast
qed

theorem Definition_single_placement_witness:
  "prefix ''/*'' (compressedColumnOpenComment exampleExternals
       \<lparr>Vendor = VendorPercona, Version = (8, 0, 30)\<rparr>)
   \<and> Definition exampleExternals
        (\<lambda>_. idColumn\<lparr>Invisible := True, Compression := ''zlib''\<rparr>) (Some 0)
        \<lparr>Vendor = VendorPercona, Version = (8, 0, 30)\<rparr>
       = Inr ''`id` int NOT NULL /*!50633 COLUMN_FORMAT zlib */ AUTO_INCREMENT''
   \<and> length (filter isInvisibilityClause
        (drop 2 (DefinitionClauses exampleExternals
           (idColumn\<lparr>Invisible := True, Compression := ''zlib''\<rparr>)
           \<lparr>Vendor = VendorPercona, Version = (8, 0, 30)\<rparr>))) \<le> 1
   \<and> DefinitionClauses exampleExternals
           (idColumn\<lparr>Invisible := True, Compression := ''zlib''\<rparr>)
           \<lparr>Vendor = VendorPercona, Version = (8, 0, 30)\<rparr> ! 1
        \<noteq> ''int /*!50633 zlib*/''
   \<and> ''/*!50633 COLUMN_FORMAT zlib */''
        \<in> set (drop 2 (DefinitionClauses exampleExternals
           (idColumn\<lparr>Invisible := True, Compression := ''zlib''\<rparr>)
           \<lparr>Vendor = VendorPercona, Version = (8, 0, 30)\<rparr>))"
  using Definition_single_placement [of exampleExternals
      "\<lambda>_. idColumn\<lparr>Invisible := True, Compression := ''zlib''\<rparr>" 0
      "\<lparr>Vendor = VendorPercona, Version = (8, 0, 30)\<rparr>"]
  by (simp add: DefinitionClauses_unfold exampleExternals_def idColumn_def bareInt_def
      ColumnType_String_def EscapeIdentifier_def IsMariaDB_def IsPercona_def IsMySQL_def
      isVendor_def MinMySQL_def MinMariaDB_def flavorAtLeast_def)

section \<open>Properties of Equals and Equivalent\<close>

subsection \<open>Type, character set and collation equivalence\<close>

lemma ColumnType_Equivalent_refl: "ColumnType_Equivalent ct ct"
  by (simp add: ColumnType_Equivalent_def)

lemma ColumnType_Equivalent_sym: "ColumnType_Equivalent ct other = ColumnType_Equivalent other ct"
  unfolding ColumnType_Equivalent_def by auto

lemma charsetsEquivalent_refl: "charsetsEquivalent a a"
  by (simp add: charsetsEquivalent_def)

lemma charsetsEquivalent_sym: "charsetsEquivalent a b = charsetsEquivalent b a"
  unfolding charsetsEquivalent_def by auto

lemma collationsEquivalent_refl: "collationsEquivalent a a"
  by (simp add: collationsEquivalent_def)

lemma collationsEquivalent_sym: "collationsEquivalent a b = collationsEquivalent b a"
  unfolding collationsEquivalent_def by (auto split: prod.splits)

lemma takeWhile_absent: "ch \<notin> set s \<Longrightarrow> takeWhile (\<lambda>x. x \<noteq> ch) s = s"
  by (induction s) auto

lemma dropWhile_absent: "ch \<notin> set s \<Longrightarrow> dropWhile (\<lambda>x. x \<noteq> ch) s = []"
  by (induction s) auto

lemma Cut_first:
  "Cut s [ch] = (takeWhile (\<lambda>x. x \<noteq> ch) s, drop 1 (dropWhile (\<lambda>x. x \<noteq> ch) s), ch \<in> set s)"
  by (induction s) (auto split: prod.splits simp: takeWhile_absent dropWhile_absent)

lemma selfCopy_eq:
  "(let selfCopy = a;
        selfCopy = selfCopy\<lparr>Type := Type b\<rparr>;
        selfCopy = selfCopy\<lparr>ShowCharSet := ShowCharSet b\<rparr>;
        selfCopy = selfCopy\<lparr>ShowCollation := ShowCollation b\<rparr>;
        selfCopy =
          (if charsetsEquivalent (CharSet a) (CharSet b)
           then selfCopy\<lparr>CharSet := CharSet b\<rparr> else selfCopy);
        selfCopy =
          (if collationsEquivalent (Collation a) (Collation b)
           then selfCopy\<lparr>Collation := Collation b\<rparr> else selfCopy)
    in selfCopy) = normalizedCopy a b"
  by (simp add: normalizedCopy_def Let_def)

lemma Equivalent_unfold:
  "Equivalent h c other =
     (if Equals h c other then True
      else if c = None \<or> other = None then False
      else if \<not> ColumnType_Equivalent (Type (h (the c))) (Type (h (the other))) then False
      else normalizedCopy (h (the c)) (h (the other)) = h (the other))"
  unfolding Equivalent_def normalizedCopy_def Let_def by simp

lemma normalizedCopy_eq_iff:
  "normalizedCopy a b = b \<longleftrightarrow>
     charsetsEquivalent (CharSet a) (CharSet b) \<and> collationsEquivalent (Collation a) (Collation b)
     \<and> a\<lparr>Type := Type b, ShowCharSet := ShowCharSet b, ShowCollation := ShowCollation b,
          CharSet := CharSet b, Collation := Collation b\<rparr> = b"
  unfolding normalizedCopy_def
  by (cases a; cases b) (auto simp: charsetsEquivalent_refl collationsEquivalent_refl)

lemma cosmetic_eq_sym:
  "a\<lparr>Type := Type b, ShowCharSet := ShowCharSet b, ShowCollation := ShowCollation b,
      CharSet := CharSet b, Collation := Collation b\<rparr> = b
   \<longleftrightarrow> b\<lparr>Type := Type a, ShowCharSet := ShowCharSet a, ShowCollation := ShowCollation a,
      CharSet := CharSet a, Collation := Collation a\<rparr> = a"
  by (cases a; cases b) auto

lemma Equals_sym: "Equals h a b = Equals h b a"
  unfolding Equals_def by auto

lemma Equivalent_sym: "Equivalent h a b = Equivalent h b a"
proof -
  have "normalizedCopy x y = y \<longleftrightarrow> normalizedCopy y x = x" for x y
    unfolding normalizedCopy_eq_iff
    using charsetsEquivalent_sym [of "CharSet x" "CharSet y"]
      collationsEquivalent_sym [of "Collation x" "Collation y"] cosmetic_eq_sym [of x y]
    by simp
  then show ?thesis
    unfolding Equivalent_unfold
    using Equals_sym [of h a b] ColumnType_Equivalent_sym [of "Type (h (the a))" "Type (h (the b))"]
    by auto
qed

lemma twoColumns_simps:
  "twoColumns a b 0 = a" "twoColumns a b 1 = b" "twoColumns a b (Suc 0) = b"
  by (simp_all add: twoColumns_def)

subsection \<open>The algorithm of Equivalent\<close>

text \<open>
  Claim C2. \<^verbatim>\<open>Equivalent\<close> is true when \<^verbatim>\<open>Equals\<close> is; otherwise it is false when
  either pointer is nil, and false when the two types are not type-equivalent;
  otherwise it is the equality of the normalized copy of the first column with the
  second column.
\<close>

theorem Equivalent_algorithm:
  "Equivalent h a b =
     (if Equals h a b then True
      else if a = None \<or> b = None then False
      else if \<not> ColumnType_Equivalent (Type (h (the a))) (Type (h (the b))) then False
      else normalizedCopy (h (the a)) (h (the b)) = h (the b))"
  by (rule Equivalent_unfold)

subsection \<open>Reflexivity and symmetry\<close>

text \<open>
  Claim C6. \<^verbatim>\<open>Equals\<close> and \<^verbatim>\<open>Equivalent\<close> hold between any pointer and itself, nil
  included, and give the same answer with their arguments exchanged; two nil pointers
  are equal and equivalent, and a nil pointer is neither equal nor equivalent to a
  pointer to a column, in either position.
\<close>

theorem Equals_Equivalent_refl_sym:
  "Equals h a a \<and> Equivalent h a a
   \<and> Equals h a b = Equals h b a
   \<and> Equivalent h a b = Equivalent h b a
   \<and> Equals h None None \<and> Equivalent h None None
   \<and> \<not> Equals h None (Some p) \<and> \<not> Equals h (Some p) None
   \<and> \<not> Equivalent h None (Some p) \<and> \<not> Equivalent h (Some p) None"
proof -
  have "Equals h a b = Equals h b a" by (rule Equals_sym)
  moreover have "Equivalent h a b = Equivalent h b a" by (rule Equivalent_sym)
  moreover have "Equals h a a" "Equals h None None" "\<not> Equals h None (Some p)"
    "\<not> Equals h (Some p) None"
    by (simp_all add: Equals_def)
  moreover have "Equivalent h a a" "Equivalent h None None" "\<not> Equivalent h None (Some p)"
    "\<not> Equivalent h (Some p) None"
    by (simp_all add: Equivalent_def Equals_def)
  ultimately show ?thesis by blast
qed

subsection \<open>Equals is stronger than Equivalent\<close>

text \<open>
  Claim C7. Whenever \<^verbatim>\<open>Equals\<close> holds, \<^verbatim>\<open>Equivalent\<close> holds. The converse fails:
  for any column \<open>c\<close>, the column and its copy with the flag \<^verbatim>\<open>ShowCharSet\<close> flipped
  are equivalent and not equal, and so are its two copies with the character sets
  \<^verbatim>\<open>utf8\<close> and \<^verbatim>\<open>utf8mb3\<close>.
\<close>

theorem Equals_implies_Equivalent:
  "(Equals h a b \<longrightarrow> Equivalent h a b)
   \<and> Equivalent (twoColumns c (c\<lparr>ShowCharSet := \<not> ShowCharSet c\<rparr>)) (Some 0) (Some 1)
   \<and> \<not> Equals (twoColumns c (c\<lparr>ShowCharSet := \<not> ShowCharSet c\<rparr>)) (Some 0) (Some 1)
   \<and> Equivalent (twoColumns (c\<lparr>CharSet := ''utf8''\<rparr>) (c\<lparr>CharSet := ''utf8mb3''\<rparr>))
         (Some 0) (Some 1)
   \<and> \<not> Equals (twoColumns (c\<lparr>CharSet := ''utf8''\<rparr>) (c\<lparr>CharSet := ''utf8mb3''\<rparr>))
         (Some 0) (Some 1)"
proof (intro conjI impI)
  assume "Equals h a b" then show "Equivalent h a b" by (simp add: Equivalent_def)
next
  show "Equivalent (twoColumns c (c\<lparr>ShowCharSet := \<not> ShowCharSet c\<rparr>)) (Some 0) (Some 1)"
    by (simp add: Equivalent_unfold normalizedCopy_eq_iff ColumnType_Equivalent_refl
        charsetsEquivalent_refl collationsEquivalent_refl twoColumns_simps)
next
  show "\<not> Equals (twoColumns c (c\<lparr>ShowCharSet := \<not> ShowCharSet c\<rparr>)) (Some 0) (Some 1)"
    by (cases c) (simp add: Equals_def twoColumns_simps)
next
  show "Equivalent (twoColumns (c\<lparr>CharSet := ''utf8''\<rparr>) (c\<lparr>CharSet := ''utf8mb3''\<rparr>))
         (Some 0) (Some 1)"
    by (simp add: Equivalent_unfold normalizedCopy_eq_iff ColumnType_Equivalent_refl
        charsetsEquivalent_def collationsEquivalent_refl twoColumns_simps)
next
  show "\<not> Equals (twoColumns (c\<lparr>CharSet := ''utf8''\<rparr>) (c\<lparr>CharSet := ''utf8mb3''\<rparr>))
         (Some 0) (Some 1)"
    by (cases c) (simp add: Equals_def twoColumns_simps)
qed

theorem Equals_implies_Equivalent_witness:
  "Equals (twoColumns idColumn idColumn) (Some 0) (Some 1)
   \<and> Equivalent (twoColumns idColumn idColumn) (Some 0) (Some 1)"
  using Equals_implies_Equivalent [of "twoColumns idColumn idColumn" "Some 0" "Some 1"]
  by (simp add: Equals_def twoColumns_simps)

subsection \<open>Comments are not cosmetic\<close>

text \<open>
  Claim C8. Two columns whose comments differ are neither equal nor equivalent, whatever
  their other fields; in particular two columns that are identical in every field but the
  comment.
\<close>

theorem comment_not_cosmetic:
  "Comment (h p) \<noteq> Comment (h q) \<Longrightarrow>
     \<not> Equals h (Some p) (Some q) \<and> \<not> Equivalent h (Some p) (Some q)"
proof -
  assume neq: "Comment (h p) \<noteq> Comment (h q)"
  then have ne: "h p \<noteq> h q" "p \<noteq> q" by auto
  have "Comment (normalizedCopy (h p) (h q)) = Comment (h p)"
    by (simp add: normalizedCopy_def)
  with neq have "normalizedCopy (h p) (h q) \<noteq> h q" by auto
  with ne show ?thesis by (simp add: Equivalent_unfold Equals_def)
qed

theorem comment_not_cosmetic_witness:
  "Comment (twoColumns idColumn (idColumn\<lparr>Comment := ''primary key''\<rparr>) 0)
     \<noteq> Comment (twoColumns idColumn (idColumn\<lparr>Comment := ''primary key''\<rparr>) 1)
   \<and> twoColumns idColumn (idColumn\<lparr>Comment := ''primary key''\<rparr>) 0
       = (twoColumns idColumn (idColumn\<lparr>Comment := ''primary key''\<rparr>) 1)\<lparr>Comment := []\<rparr>
   \<and> \<not> Equals (twoColumns idColumn (idColumn\<lparr>Comment := ''primary key''\<rparr>)) (Some 0) (Some 1)
   \<and> \<not> Equivalent (twoColumns idColumn (idColumn\<lparr>Comment := ''primary key''\<rparr>))
         (Some 0) (Some 1)"
  using comment_not_cosmetic
    [of "twoColumns idColumn (idColumn\<lparr>Comment := ''primary key''\<rparr>)" 0 1]
  by (simp add: idColumn_def twoColumns_simps)

subsection \<open>Character sets and collations\<close>

text \<open>
  Claim C9. Two character sets are equivalent exactly when they are equal or are
  \<^verbatim>\<open>utf8\<close> and \<^verbatim>\<open>utf8mb3\<close> in either order. \<^verbatim>\<open>strings.Cut\<close> splits a name at its
  first underscore; two collations are equivalent exactly when they are equal, or their
  parts after the first underscore are equal and their parts before it are \<^verbatim>\<open>utf8\<close>
  and \<^verbatim>\<open>utf8mb3\<close> in either order. So \<^verbatim>\<open>utf8_general_ci\<close> is equivalent to
  \<^verbatim>\<open>utf8mb3_general_ci\<close> and not to \<^verbatim>\<open>utf8_bin\<close>, and a column with the character
  set \<^verbatim>\<open>utf8\<close>, shown, is equivalent to the same column with \<^verbatim>\<open>utf8mb3\<close>, in both
  directions.
\<close>

theorem charset_collation_rules:
  "charsetsEquivalent a b
     = (a = b \<or> (a = ''utf8'' \<and> b = ''utf8mb3'') \<or> (a = ''utf8mb3'' \<and> b = ''utf8''))
   \<and> Cut a ''_''
       = (takeWhile (\<lambda>x. x \<noteq> CHR ''_'') a, drop 1 (dropWhile (\<lambda>x. x \<noteq> CHR ''_'') a),
          CHR ''_'' \<in> set a)
   \<and> collationsEquivalent a b
       = (a = b
          \<or> (fst (snd (Cut a ''_'')) = fst (snd (Cut b ''_''))
             \<and> ((fst (Cut a ''_'') = ''utf8'' \<and> fst (Cut b ''_'') = ''utf8mb3'')
                \<or> (fst (Cut a ''_'') = ''utf8mb3'' \<and> fst (Cut b ''_'') = ''utf8''))))
   \<and> collationsEquivalent ''utf8_general_ci'' ''utf8mb3_general_ci''
   \<and> \<not> collationsEquivalent ''utf8_general_ci'' ''utf8_bin''
   \<and> Equivalent
        (twoColumns (c\<lparr>CharSet := ''utf8'', ShowCharSet := True\<rparr>)
           (c\<lparr>CharSet := ''utf8mb3'', ShowCharSet := True\<rparr>))
        (Some 0) (Some 1)
   \<and> Equivalent
        (twoColumns (c\<lparr>CharSet := ''utf8'', ShowCharSet := True\<rparr>)
           (c\<lparr>CharSet := ''utf8mb3'', ShowCharSet := True\<rparr>))
        (Some 1) (Some 0)"
proof (intro conjI)
  show "charsetsEquivalent a b
     = (a = b \<or> (a = ''utf8'' \<and> b = ''utf8mb3'') \<or> (a = ''utf8mb3'' \<and> b = ''utf8''))"
    unfolding charsetsEquivalent_def by auto
next
  show "Cut a ''_''
       = (takeWhile (\<lambda>x. x \<noteq> CHR ''_'') a, drop 1 (dropWhile (\<lambda>x. x \<noteq> CHR ''_'') a),
          CHR ''_'' \<in> set a)"
    by (rule Cut_first)
next
  show "collationsEquivalent a b
       = (a = b
          \<or> (fst (snd (Cut a ''_'')) = fst (snd (Cut b ''_''))
             \<and> ((fst (Cut a ''_'') = ''utf8'' \<and> fst (Cut b ''_'') = ''utf8mb3'')
                \<or> (fst (Cut a ''_'') = ''utf8mb3'' \<and> fst (Cut b ''_'') = ''utf8''))))"
    unfolding collationsEquivalent_def by (auto split: prod.splits)
next
  show "collationsEquivalent ''utf8_general_ci'' ''utf8mb3_general_ci''"
    by (simp add: collationsEquivalent_def)
next
  show "\<not> collationsEquivalent ''utf8_general_ci'' ''utf8_bin''"
    by (simp add: collationsEquivalent_def)
next
  show "Equivalent
        (twoColumns (c\<lparr>CharSet := ''utf8'', ShowCharSet := True\<rparr>)
           (c\<lparr>CharSet := ''utf8mb3'', ShowCharSet := True\<rparr>))
        (Some 0) (Some 1)"
    by (simp add: Equivalent_unfold normalizedCopy_eq_iff ColumnType_Equivalent_refl
        charsetsEquivalent_def collationsEquivalent_refl twoColumns_simps)
next
  show "Equivalent
        (twoColumns (c\<lparr>CharSet := ''utf8'', ShowCharSet := True\<rparr>)
           (c\<lparr>CharSet := ''utf8mb3'', ShowCharSet := True\<rparr>))
        (Some 1) (Some 0)"
    by (simp add: Equivalent_unfold normalizedCopy_eq_iff ColumnType_Equivalent_refl
        charsetsEquivalent_def collationsEquivalent_refl twoColumns_simps)
qed

text \<open>
  Claim C10. For a name without an underscore \<^verbatim>\<open>strings.Cut\<close> returns the whole name
  as the part before and the empty string as the part after. Two such names are
  collation-equivalent exactly when they are equal or are \<^verbatim>\<open>utf8\<close> and \<^verbatim>\<open>utf8mb3\<close>
  in either order, as the bare names \<^verbatim>\<open>utf8\<close> and \<^verbatim>\<open>utf8mb3\<close> themselves are.
\<close>

theorem collations_without_underscore:
  "CHR ''_'' \<notin> set a \<Longrightarrow> CHR ''_'' \<notin> set b \<Longrightarrow>
     Cut a ''_'' = (a, [], False)
     \<and> collationsEquivalent a b
         = (a = b \<or> (a = ''utf8'' \<and> b = ''utf8mb3'') \<or> (a = ''utf8mb3'' \<and> b = ''utf8''))"
  by (auto simp: collationsEquivalent_def Cut_first takeWhile_absent dropWhile_absent)

theorem collations_without_underscore_witness:
  "CHR ''_'' \<notin> set ''utf8'' \<and> CHR ''_'' \<notin> set ''utf8mb3''
   \<and> Cut ''utf8'' ''_'' = (''utf8'', [], False)
   \<and> collationsEquivalent ''utf8'' ''utf8mb3''"
  using collations_without_underscore [of "''utf8''" "''utf8mb3''"]
  by simp

end
